theory Spec2Isabelle
  imports Complex_Main "HOL-Library.AList"
begin

section \<open>Numbers of the host language\<close>

text \<open>
  The source computes with the host's \<open>number\<close> type. A number is modelled as a real
  extended with the three special values the source tests for and produces: \<open>Infinity\<close>,
  \<open>-Infinity\<close> and \<open>NaN\<close>. Arithmetic on the special values follows the host
  (\<open>Infinity - Infinity\<close>, \<open>0 * Infinity\<close> and \<open>Infinity / Infinity\<close> are \<open>NaN\<close>; every
  comparison with \<open>NaN\<close> is false). On finite values the operations \<open>add\<close>, \<open>sub\<close>,
  \<open>mul\<close> and \<open>divide_num\<close> give the exact result; the host rounds that result to the
  nearest double, and to an infinity beyond the largest double, which \<open>round64\<close> below
  describes. The properties of the claims are stated so that they hold with and without
  this rounding: none of them says that a finite result has a particular exact value or
  that it stays finite. The negative zero is identified with zero (every divisor in the
  source is guarded by \<open>> 0\<close>, which both zeros fail).
\<close>

datatype number = Fin real | PInf | NInf | NaN

fun uminus_num :: "number \<Rightarrow> number" where
  "uminus_num (Fin a) = Fin (- a)"
| "uminus_num PInf = NInf"
| "uminus_num NInf = PInf"
| "uminus_num NaN = NaN"

fun add :: "number \<Rightarrow> number \<Rightarrow> number" where
  "add (Fin a) (Fin b) = Fin (a + b)"
| "add NaN y = NaN"
| "add x NaN = NaN"
| "add PInf NInf = NaN"
| "add NInf PInf = NaN"
| "add PInf y = PInf"
| "add x PInf = PInf"
| "add NInf y = NInf"
| "add x NInf = NInf"

definition sub :: "number \<Rightarrow> number \<Rightarrow> number" where
  "sub x y = add x (uminus_num y)"

fun mul :: "number \<Rightarrow> number \<Rightarrow> number" where
  "mul (Fin a) (Fin b) = Fin (a * b)"
| "mul NaN y = NaN"
| "mul x NaN = NaN"
| "mul PInf (Fin b) = (if b = 0 then NaN else if 0 < b then PInf else NInf)"
| "mul NInf (Fin b) = (if b = 0 then NaN else if 0 < b then NInf else PInf)"
| "mul (Fin a) PInf = (if a = 0 then NaN else if 0 < a then PInf else NInf)"
| "mul (Fin a) NInf = (if a = 0 then NaN else if 0 < a then NInf else PInf)"
| "mul PInf PInf = PInf"
| "mul PInf NInf = NInf"
| "mul NInf PInf = NInf"
| "mul NInf NInf = PInf"

fun divide_num :: "number \<Rightarrow> number \<Rightarrow> number" where
  "divide_num (Fin a) (Fin b) =
     (if b = 0 then (if a = 0 then NaN else if 0 < a then PInf else NInf)
      else Fin (a / b))"
| "divide_num NaN y = NaN"
| "divide_num x NaN = NaN"
| "divide_num (Fin a) PInf = Fin 0"
| "divide_num (Fin a) NInf = Fin 0"
| "divide_num PInf (Fin b) = (if 0 \<le> b then PInf else NInf)"
| "divide_num NInf (Fin b) = (if 0 \<le> b then NInf else PInf)"
| "divide_num PInf y = NaN"
| "divide_num NInf y = NaN"

text \<open>\<open>x < y\<close> of the host: false as soon as one side is \<open>NaN\<close>.\<close>

fun less_num :: "number \<Rightarrow> number \<Rightarrow> bool" where
  "less_num (Fin a) (Fin b) = (a < b)"
| "less_num NaN y = False"
| "less_num x NaN = False"
| "less_num x NInf = False"
| "less_num PInf y = False"
| "less_num NInf y = True"
| "less_num x PInf = True"

definition greater_num :: "number \<Rightarrow> number \<Rightarrow> bool" where
  "greater_num x y = less_num y x"

definition less_eq_num :: "number \<Rightarrow> number \<Rightarrow> bool" where
  "less_eq_num x y = (less_num x y \<or> (x = y \<and> x \<noteq> NaN))"

text \<open>\<open>Number.isFinite\<close>, \<open>Math.max\<close> and \<open>Math.min\<close> of two arguments.\<close>

fun isFinite :: "number \<Rightarrow> bool" where
  "isFinite (Fin a) = True"
| "isFinite x = False"



text \<open>
  \<open>Array.prototype.reduce\<close>: with an initial value it is a left fold; without one it
  starts from the first element and raises a \<open>TypeError\<close> on the empty array.
\<close>

datatype error = TypeError

definition reduce :: "('b \<Rightarrow> 'a \<Rightarrow> 'b) \<Rightarrow> 'b \<Rightarrow> 'a list \<Rightarrow> 'b" where
  "reduce f init xs = foldl f init xs"

fun reduce1 :: "('a \<Rightarrow> 'a \<Rightarrow> 'a) \<Rightarrow> 'a list \<Rightarrow> error + 'a" where
  "reduce1 f [] = Inl TypeError"
| "reduce1 f (x # xs) = Inr (foldl f x xs)"

section \<open>Data model\<close>

record AssetPosition =
  symbol :: string
  address :: string
  amount :: number
  usdPrice :: number
  usdValue :: number
  collateralEnabled :: bool
  maxLTV :: number
  liqThreshold :: number
  supplyRate :: number
  borrowRate :: number

record LoanPosition =
  loanId :: string
  marketName :: string
  borrowed :: AssetPosition
  supplied :: "AssetPosition list"
  totalSuppliedUsd :: number
  totalBorrowedUsd :: number

record Computed =
  units :: number
  px :: number
  debt :: number
  collateralUSD :: number
  equity :: number
  ltv :: number
  leverage :: number
  healthFactor :: number
  liqPrice :: number
  collateralUSDAtLiq :: number
  ltvAtLiq :: number
  priceDropToLiq :: number
  supplyEarnUSD :: number
  borrowCostUSD :: number
  deployEarnUSD :: number
  netEarnUSD :: number
  netAPYOnEquity :: number
  maxBorrowByLTV :: number
  borrowHeadroom :: number
  borrowPowerUsed :: number
  equityMoveFor10Pct :: number
  collateralBufferUSD :: number
  alertHF :: bool
  alertLTV :: bool
  ltvMax :: number
  lt :: number
  rSupply :: number
  rBorrow :: number
  rDeploy :: number
  primaryCollateralSymbol :: string

section \<open>Weighted aggregator\<close>

definition weightedAverage :: "AssetPosition list \<Rightarrow> (AssetPosition \<Rightarrow> number) \<Rightarrow> number" where
  "weightedAverage items valueSelector =
     (let totalWeight = reduce (\<lambda>sum item. add sum (usdValue item)) (Fin 0) items
      in if less_eq_num totalWeight (Fin 0) then Fin 0
         else
           let weighted = reduce (\<lambda>sum item. add sum (mul (valueSelector item) (usdValue item)))
                            (Fin 0) items
           in divide_num weighted totalWeight)"

section \<open>Loan metrics calculator\<close>

text \<open>The placeholder string of the source, U+2014, as its three UTF-8 bytes.\<close>

definition em_dash :: string where
  "em_dash = [CHR 0xE2, CHR 0x80, CHR 0x94]"

text \<open>
  The primary collateral: \<open>reduce\<close> without an initial value, guarded by the length test.
\<close>

definition primaryCollateral :: "LoanPosition \<Rightarrow> error + AssetPosition option" where
  "primaryCollateral loan =
     (if 0 < length (supplied loan)
      then (case reduce1 (\<lambda>mx current.
                   if greater_num (usdValue current) (usdValue mx) then current else mx)
                 (supplied loan) of
              Inl e \<Rightarrow> Inl e
            | Inr p \<Rightarrow> Inr (Some p))
      else Inr None)"

fun computeLoanMetrics :: "LoanPosition option \<Rightarrow> error + Computed" where
  "computeLoanMetrics None =
     Inr \<lparr> units = Fin 0, px = Fin 0, debt = Fin 0, collateralUSD = Fin 0, equity = Fin 0,
           ltv = Fin 0, leverage = Fin 0, healthFactor = PInf, liqPrice = PInf,
           collateralUSDAtLiq = PInf, ltvAtLiq = Fin 0, priceDropToLiq = Fin 0,
           supplyEarnUSD = Fin 0, borrowCostUSD = Fin 0, deployEarnUSD = Fin 0,
           netEarnUSD = Fin 0, netAPYOnEquity = Fin 0, maxBorrowByLTV = Fin 0,
           borrowHeadroom = Fin 0, borrowPowerUsed = Fin 0, equityMoveFor10Pct = Fin 0,
           collateralBufferUSD = Fin 0, alertHF = False, alertLTV = False,
           ltvMax = Fin 0, lt = Fin 0, rSupply = Fin 0, rBorrow = Fin 0, rDeploy = Fin 0,
           primaryCollateralSymbol = em_dash \<rparr>"
| "computeLoanMetrics (Some loan) =
     (case primaryCollateral loan of
        Inl e \<Rightarrow> Inl e
      | Inr primary \<Rightarrow>
     (let debt = totalBorrowedUsd loan;
          collateralUSD = totalSuppliedUsd loan;
          equity = sub collateralUSD debt;
          ltvMax = weightedAverage (supplied loan) maxLTV;
          lt = weightedAverage (supplied loan) liqThreshold;
          rSupply = weightedAverage (supplied loan) supplyRate;
          rBorrow = borrowRate (borrowed loan);
          rDeploy = Fin 0;
          ltv = (if greater_num collateralUSD (Fin 0) then divide_num debt collateralUSD
                 else Fin 0);
          leverage = (if greater_num equity (Fin 0) then divide_num collateralUSD equity
                      else PInf);
          healthFactor = (if greater_num debt (Fin 0)
                          then divide_num (mul collateralUSD lt) debt else PInf);
          units = (case primary of None \<Rightarrow> Fin 0 | Some p \<Rightarrow> amount p);
          px = (case primary of None \<Rightarrow> Fin 0 | Some p \<Rightarrow> usdPrice p);
          primaryCollateralSymbol = (case primary of None \<Rightarrow> em_dash | Some p \<Rightarrow> symbol p);
          collateralUSDAtLiq = (if greater_num lt (Fin 0) then divide_num debt lt else PInf);
          collateralOtherUSD =
            sub collateralUSD (case primary of None \<Rightarrow> Fin 0 | Some p \<Rightarrow> usdValue p);
          primaryUsdAtLiq = sub collateralUSDAtLiq collateralOtherUSD;
          liqPrice = (if greater_num units (Fin 0) then divide_num primaryUsdAtLiq units
                      else PInf);
          ltvAtLiq = (if greater_num collateralUSDAtLiq (Fin 0)
                      then divide_num debt collateralUSDAtLiq else Fin 0);
          priceDropToLiq = (if greater_num px (Fin 0) \<and> isFinite liqPrice
                            then divide_num (sub px liqPrice) px else Fin 0);
          supplyEarnUSD = mul collateralUSD rSupply;
          borrowCostUSD = mul debt rBorrow;
          deployEarnUSD = mul debt rDeploy;
          netEarnUSD = sub (add supplyEarnUSD deployEarnUSD) borrowCostUSD;
          netAPYOnEquity = (if greater_num equity (Fin 0) then divide_num netEarnUSD equity
                            else Fin 0);
          maxBorrowByLTV = mul collateralUSD ltvMax;
          borrowHeadroom = sub maxBorrowByLTV debt;
          borrowPowerUsed = (if greater_num maxBorrowByLTV (Fin 0)
                             then divide_num debt maxBorrowByLTV else Fin 0);
          equityMoveFor10Pct = (if isFinite leverage then mul leverage (Fin 0.1) else Fin 0);
          collateralBufferUSD = sub collateralUSD collateralUSDAtLiq;
          alertHF = less_num healthFactor (Fin 1.5);
          alertLTV = greater_num ltv (mul (Fin 0.7) lt)
      in Inr \<lparr> units = units, px = px, debt = debt, collateralUSD = collateralUSD,
                equity = equity, ltv = ltv, leverage = leverage, healthFactor = healthFactor,
                liqPrice = liqPrice, collateralUSDAtLiq = collateralUSDAtLiq,
                ltvAtLiq = ltvAtLiq, priceDropToLiq = priceDropToLiq,
                supplyEarnUSD = supplyEarnUSD, borrowCostUSD = borrowCostUSD,
                deployEarnUSD = deployEarnUSD, netEarnUSD = netEarnUSD,
                netAPYOnEquity = netAPYOnEquity, maxBorrowByLTV = maxBorrowByLTV,
                borrowHeadroom = borrowHeadroom, borrowPowerUsed = borrowPowerUsed,
                equityMoveFor10Pct = equityMoveFor10Pct,
                collateralBufferUSD = collateralBufferUSD, alertHF = alertHF,
                alertLTV = alertLTV, ltvMax = ltvMax, lt = lt, rSupply = rSupply,
                rBorrow = rBorrow, rDeploy = rDeploy,
                primaryCollateralSymbol = primaryCollateralSymbol \<rparr>))"

section \<open>Portfolio aggregator\<close>

record FetchState =
  wallet :: string
  loans :: "LoanPosition list"
  lastUpdated :: string

record Portfolio =
  loanCount :: number
  totalDebt :: number
  totalCollateral :: number
  totalNetWorth :: number
  totalSupplyEarn :: number
  totalBorrowCost :: number
  totalDeployEarn :: number
  totalNetEarn :: number
  averageHealthFactor :: number
  averageSupplyApy :: number
  averageBorrowApy :: number
  portfolioNetApy :: number
  portfolioBorrowPowerUsed :: number

text \<open>The \<open>length\<close> of an array, as a number.\<close>

definition length_num :: "'a list \<Rightarrow> number" where
  "length_num xs = Fin (real (length xs))"

text \<open>\<open>Array.prototype.map\<close> with a callback that may raise: the first error escapes.\<close>

fun map_raising :: "('a \<Rightarrow> error + 'b) \<Rightarrow> 'a list \<Rightarrow> error + 'b list" where
  "map_raising f [] = Inr []"
| "map_raising f (x # xs) =
     (case f x of
        Inl e \<Rightarrow> Inl e
      | Inr y \<Rightarrow> (case map_raising f xs of Inl e \<Rightarrow> Inl e | Inr ys \<Rightarrow> Inr (y # ys)))"

text \<open>The rollup of the per-loan metrics (the body of the portfolio memo after the map).\<close>

definition portfolioOfMetrics :: "Computed list \<Rightarrow> Portfolio" where
  "portfolioOfMetrics metrics =
     (let totalDebt = reduce (\<lambda>sum item. add sum (debt item)) (Fin 0) metrics;
          totalCollateral = reduce (\<lambda>sum item. add sum (collateralUSD item)) (Fin 0) metrics;
          totalNetWorth = reduce (\<lambda>sum item. add sum (equity item)) (Fin 0) metrics;
          totalSupplyEarn = reduce (\<lambda>sum item. add sum (supplyEarnUSD item)) (Fin 0) metrics;
          totalBorrowCost = reduce (\<lambda>sum item. add sum (borrowCostUSD item)) (Fin 0) metrics;
          totalDeployEarn = reduce (\<lambda>sum item. add sum (deployEarnUSD item)) (Fin 0) metrics;
          totalNetEarn = reduce (\<lambda>sum item. add sum (netEarnUSD item)) (Fin 0) metrics;
          totalMaxBorrow = reduce (\<lambda>sum item. add sum (maxBorrowByLTV item)) (Fin 0) metrics;
          finiteHealthFactors = filter isFinite (map healthFactor metrics);
          averageHealthFactor =
            (if greater_num (length_num finiteHealthFactors) (Fin 0)
             then divide_num (reduce (\<lambda>sum item. add sum item) (Fin 0) finiteHealthFactors)
                    (length_num finiteHealthFactors)
             else PInf)
      in \<lparr> loanCount = length_num metrics,
           totalDebt = totalDebt,
           totalCollateral = totalCollateral,
           totalNetWorth = totalNetWorth,
           totalSupplyEarn = totalSupplyEarn,
           totalBorrowCost = totalBorrowCost,
           totalDeployEarn = totalDeployEarn,
           totalNetEarn = totalNetEarn,
           averageHealthFactor = averageHealthFactor,
           averageSupplyApy = (if greater_num totalCollateral (Fin 0)
                               then divide_num totalSupplyEarn totalCollateral else Fin 0),
           averageBorrowApy = (if greater_num totalDebt (Fin 0)
                               then divide_num totalBorrowCost totalDebt else Fin 0),
           portfolioNetApy = (if greater_num totalNetWorth (Fin 0)
                              then divide_num totalNetEarn totalNetWorth else Fin 0),
           portfolioBorrowPowerUsed = (if greater_num totalMaxBorrow (Fin 0)
                                       then divide_num totalDebt totalMaxBorrow else Fin 0) \<rparr>)"

fun portfolio :: "FetchState option \<Rightarrow> error + Portfolio option" where
  "portfolio None = Inr None"
| "portfolio (Some result) =
     (if length (loans result) = 0 then Inr None
      else (case map_raising (\<lambda>loan. computeLoanMetrics (Some loan)) (loans result) of
              Inl e \<Rightarrow> Inl e
            | Inr metrics \<Rightarrow> Inr (Some (portfolioOfMetrics metrics))))"

section \<open>Rounding of the host's arithmetic\<close>

text \<open>
  A finite result of the host is the exact result rounded to the nearest double, a tie
  going to the even significand, and an infinity when the rounded value reaches \<open>2^1024\<close>.
  A double has 53 significant bits; the exponent of its last bit is at least \<open>-1074\<close>.
\<close>

definition round_half_even :: "real \<Rightarrow> int" where
  "round_half_even q =
     (let f = \<lfloor>q\<rfloor>
      in if q - of_int f < 1 / 2 then f
         else if 1 / 2 < q - of_int f then f + 1
         else if even f then f else f + 1)"

definition round64 :: "real \<Rightarrow> number" where
  "round64 x =
     (if x = 0 then Fin 0
      else
        let e = max \<lfloor>log 2 \<bar>x\<bar>\<rfloor> (- 1022) - 52;
            y = of_int (round_half_even (x / 2 powi e)) * 2 powi e
        in if 2 ^ 1024 \<le> \<bar>y\<bar> then (if 0 < x then PInf else NInf) else Fin y)"

fun rounded :: "number \<Rightarrow> number" where
  "rounded (Fin a) = round64 a"
| "rounded x = x"

definition add64 :: "number \<Rightarrow> number \<Rightarrow> number" where
  "add64 x y = rounded (add x y)"

definition sub64 :: "number \<Rightarrow> number \<Rightarrow> number" where
  "sub64 x y = rounded (sub x y)"

definition divide64 :: "number \<Rightarrow> number \<Rightarrow> number" where
  "divide64 x y = rounded (divide_num x y)"

text \<open>
  The rollup of the per-loan metrics with the rounded operations, and the portfolio
  computed with it from the metrics of each loan.
\<close>

definition portfolioOfMetrics64 :: "Computed list \<Rightarrow> Portfolio" where
  "portfolioOfMetrics64 metrics =
     (let totalDebt = reduce (\<lambda>sum item. add64 sum (debt item)) (Fin 0) metrics;
          totalCollateral = reduce (\<lambda>sum item. add64 sum (collateralUSD item)) (Fin 0) metrics;
          totalNetWorth = reduce (\<lambda>sum item. add64 sum (equity item)) (Fin 0) metrics;
          totalSupplyEarn = reduce (\<lambda>sum item. add64 sum (supplyEarnUSD item)) (Fin 0) metrics;
          totalBorrowCost = reduce (\<lambda>sum item. add64 sum (borrowCostUSD item)) (Fin 0) metrics;
          totalDeployEarn = reduce (\<lambda>sum item. add64 sum (deployEarnUSD item)) (Fin 0) metrics;
          totalNetEarn = reduce (\<lambda>sum item. add64 sum (netEarnUSD item)) (Fin 0) metrics;
          totalMaxBorrow = reduce (\<lambda>sum item. add64 sum (maxBorrowByLTV item)) (Fin 0) metrics;
          finiteHealthFactors = filter isFinite (map healthFactor metrics);
          averageHealthFactor =
            (if greater_num (length_num finiteHealthFactors) (Fin 0)
             then divide64 (reduce (\<lambda>sum item. add64 sum item) (Fin 0) finiteHealthFactors)
                    (length_num finiteHealthFactors)
             else PInf)
      in \<lparr> loanCount = length_num metrics,
           totalDebt = totalDebt,
           totalCollateral = totalCollateral,
           totalNetWorth = totalNetWorth,
           totalSupplyEarn = totalSupplyEarn,
           totalBorrowCost = totalBorrowCost,
           totalDeployEarn = totalDeployEarn,
           totalNetEarn = totalNetEarn,
           averageHealthFactor = averageHealthFactor,
           averageSupplyApy = (if greater_num totalCollateral (Fin 0)
                               then divide64 totalSupplyEarn totalCollateral else Fin 0),
           averageBorrowApy = (if greater_num totalDebt (Fin 0)
                               then divide64 totalBorrowCost totalDebt else Fin 0),
           portfolioNetApy = (if greater_num totalNetWorth (Fin 0)
                              then divide64 totalNetEarn totalNetWorth else Fin 0),
           portfolioBorrowPowerUsed = (if greater_num totalMaxBorrow (Fin 0)
                                       then divide64 totalDebt totalMaxBorrow else Fin 0) \<rparr>)"

fun portfolio64 :: "FetchState option \<Rightarrow> error + Portfolio option" where
  "portfolio64 None = Inr None"
| "portfolio64 (Some result) =
     (if length (loans result) = 0 then Inr None
      else (case map_raising (\<lambda>loan. computeLoanMetrics (Some loan)) (loans result) of
              Inl e \<Rightarrow> Inl e
            | Inr metrics \<Rightarrow> Inr (Some (portfolioOfMetrics64 metrics))))"

section \<open>Unit converters and position builder\<close>


















section \<open>Notions used to state the properties\<close>

text \<open>A number that is finite and not negative.\<close>

fun nonneg :: "number \<Rightarrow> bool" where
  "nonneg (Fin a) = (0 \<le> a)"
| "nonneg x = False"

text \<open>The real value of a finite number (zero for the special values).\<close>

fun real_of :: "number \<Rightarrow> real" where
  "real_of (Fin a) = a"
| "real_of x = 0"





section \<open>Example inputs\<close>

text \<open>
  Ten units of a collateral asset priced at 3000, and a debt of 15000 units of an asset
  priced at 1 (scenario A of the specification).
\<close>

definition asset_weth :: AssetPosition where
  "asset_weth =
     \<lparr> symbol = ''WETH'', address = ''0xc02a'', amount = Fin 10, usdPrice = Fin 3000,
       usdValue = Fin 30000, collateralEnabled = True, maxLTV = Fin 0.8,
       liqThreshold = Fin 0.825, supplyRate = Fin 0.02, borrowRate = Fin 0.03 \<rparr>"

definition asset_usdc :: AssetPosition where
  "asset_usdc =
     \<lparr> symbol = ''USDC'', address = ''0xa0b8'', amount = Fin 15000, usdPrice = Fin 1,
       usdValue = Fin 15000, collateralEnabled = False, maxLTV = Fin 0.75,
       liqThreshold = Fin 0.78, supplyRate = Fin 0.04, borrowRate = Fin 0.05 \<rparr>"

definition loan_a :: LoanPosition where
  "loan_a =
     \<lparr> loanId = ''proto_mainnet_v3-0xa0b8-0'', marketName = ''proto_mainnet_v3'',
       borrowed = asset_usdc, supplied = [asset_weth],
       totalSuppliedUsd = Fin 30000, totalBorrowedUsd = Fin 15000 \<rparr>"

text \<open>The same loan when the price of the borrowed asset is missing (taken as 0).\<close>

definition loan_unpriced_debt :: LoanPosition where
  "loan_unpriced_debt =
     \<lparr> loanId = ''proto_mainnet_v3-0xa0b8-0'', marketName = ''proto_mainnet_v3'',
       borrowed = asset_usdc \<lparr> usdPrice := Fin 0, usdValue := Fin 0 \<rparr>,
       supplied = [asset_weth],
       totalSuppliedUsd = Fin 30000, totalBorrowedUsd = Fin 0 \<rparr>"

text \<open>The same loan when the price feed gives the borrowed asset the price \<open>-1\<close>.\<close>

definition loan_negative_price :: LoanPosition where
  "loan_negative_price =
     \<lparr> loanId = ''proto_mainnet_v3-0xa0b8-0'', marketName = ''proto_mainnet_v3'',
       borrowed = asset_usdc \<lparr> usdPrice := Fin (- 1), usdValue := Fin (- 15000) \<rparr>,
       supplied = [asset_weth],
       totalSuppliedUsd = Fin 30000, totalBorrowedUsd = Fin (- 15000) \<rparr>"

text \<open>The same loan when the price feed gives the collateral asset the price \<open>Infinity\<close>.\<close>

definition loan_infinite_price :: LoanPosition where
  "loan_infinite_price =
     \<lparr> loanId = ''proto_mainnet_v3-0xa0b8-0'', marketName = ''proto_mainnet_v3'',
       borrowed = asset_usdc,
       supplied = [asset_weth \<lparr> usdPrice := PInf, usdValue := PInf \<rparr>],
       totalSuppliedUsd = PInf, totalBorrowedUsd = Fin 15000 \<rparr>"

text \<open>The debt with no collateral at all (scenario B of the specification).\<close>

definition loan_no_collateral :: LoanPosition where
  "loan_no_collateral =
     \<lparr> loanId = ''proto_mainnet_v3-0xa0b8-0'', marketName = ''proto_mainnet_v3'',
       borrowed = asset_usdc, supplied = [],
       totalSuppliedUsd = Fin 0, totalBorrowedUsd = Fin 15000 \<rparr>"

text \<open>Two collateral assets of the same value, 30000 each.\<close>

definition asset_wbtc :: AssetPosition where
  "asset_wbtc =
     \<lparr> symbol = ''WBTC'', address = ''0x2260'', amount = Fin 0.5, usdPrice = Fin 60000,
       usdValue = Fin 30000, collateralEnabled = True, maxLTV = Fin 0.73,
       liqThreshold = Fin 0.78, supplyRate = Fin 0.01, borrowRate = Fin 0.02 \<rparr>"

definition loan_tie :: LoanPosition where
  "loan_tie =
     \<lparr> loanId = ''proto_mainnet_v3-0xa0b8-0'', marketName = ''proto_mainnet_v3'',
       borrowed = asset_usdc, supplied = [asset_weth, asset_wbtc],
       totalSuppliedUsd = Fin 60000, totalBorrowedUsd = Fin 15000 \<rparr>"

text \<open>A metrics record with a given health factor (the other fields as for no selection).\<close>

definition metrics_with_health :: "number \<Rightarrow> Computed" where
  "metrics_with_health h =
     \<lparr> units = Fin 0, px = Fin 0, debt = Fin 0, collateralUSD = Fin 0, equity = Fin 0,
       ltv = Fin 0, leverage = Fin 0, healthFactor = h, liqPrice = PInf,
       collateralUSDAtLiq = PInf, ltvAtLiq = Fin 0, priceDropToLiq = Fin 0,
       supplyEarnUSD = Fin 0, borrowCostUSD = Fin 0, deployEarnUSD = Fin 0,
       netEarnUSD = Fin 0, netAPYOnEquity = Fin 0, maxBorrowByLTV = Fin 0,
       borrowHeadroom = Fin 0, borrowPowerUsed = Fin 0, equityMoveFor10Pct = Fin 0,
       collateralBufferUSD = Fin 0, alertHF = False, alertLTV = False,
       ltvMax = Fin 0, lt = Fin 0, rSupply = Fin 0, rBorrow = Fin 0, rDeploy = Fin 0,
       primaryCollateralSymbol = em_dash \<rparr>"

text \<open>A snapshot with one loan: scenario A.\<close>

definition state_one_loan :: FetchState where
  "state_one_loan =
     \<lparr> wallet = ''0x00'', loans = [loan_a],
       lastUpdated = ''2024-01-01T00:00:00.000Z'' \<rparr>"

text \<open>
  A loan with collateral \<open>2^53\<close> and debt \<open>2^53 - 1\<close>, a loan with collateral 1 whose
  debt has no price, and the snapshot with both.
\<close>

definition loan_large :: LoanPosition where
  "loan_large =
     \<lparr> loanId = ''proto_mainnet_v3-0xa0b8-0'', marketName = ''proto_mainnet_v3'',
       borrowed = asset_usdc \<lparr> amount := Fin (2 ^ 53 - 1), usdValue := Fin (2 ^ 53 - 1) \<rparr>,
       supplied = [asset_usdc \<lparr> amount := Fin (2 ^ 53), usdValue := Fin (2 ^ 53),
                                collateralEnabled := True \<rparr>],
       totalSuppliedUsd = Fin (2 ^ 53), totalBorrowedUsd = Fin (2 ^ 53 - 1) \<rparr>"

definition loan_unit :: LoanPosition where
  "loan_unit =
     \<lparr> loanId = ''proto_lido_v3-0xc02a-0'', marketName = ''proto_lido_v3'',
       borrowed = asset_weth \<lparr> usdPrice := Fin 0, usdValue := Fin 0 \<rparr>,
       supplied = [asset_usdc \<lparr> amount := Fin 1, usdValue := Fin 1,
                                collateralEnabled := True \<rparr>],
       totalSuppliedUsd = Fin 1, totalBorrowedUsd = Fin 0 \<rparr>"

definition state_rounding :: FetchState where
  "state_rounding =
     \<lparr> wallet = ''0x00'', loans = [loan_large, loan_unit],
       lastUpdated = ''2024-01-01T00:00:00.000Z'' \<rparr>"

text \<open>The two collateral assets of a wallet when the price feed gives the second one the
  price \<open>-1\<close>.\<close>

definition assets_negative_price :: "AssetPosition list" where
  "assets_negative_price =
     [asset_weth, asset_usdc \<lparr> usdPrice := Fin (- 1), usdValue := Fin (- 15000) \<rparr>]"








section \<open>Basic facts\<close>

lemma add_zero_right: "add x (Fin 0) = x"
  by (cases x) simp_all

lemma sub_zero_right: "sub x (Fin 0) = x"
  by (cases x) (simp_all add: sub_def)

text \<open>The length guard makes the \<open>reduce\<close> of the primary collateral safe.\<close>

lemma primaryCollateral_Inr:
  "primaryCollateral l =
     Inr (case supplied l of [] \<Rightarrow> None
          | x # xs \<Rightarrow> Some (foldl (\<lambda>mx current.
                   if greater_num (usdValue current) (usdValue mx) then current else mx) x xs))"
  by (cases "supplied l") (simp_all add: primaryCollateral_def)

lemma computeLoanMetrics_returns: "\<exists>c. computeLoanMetrics lo = Inr c"
  by (cases lo) (simp_all add: primaryCollateral_Inr Let_def)

text \<open>Every field of the result of a loan, in terms of the fields before it.\<close>

lemma computeLoanMetrics_fields:
  assumes "computeLoanMetrics (Some l) = Inr c" and "primaryCollateral l = Inr p"
  shows "debt c = totalBorrowedUsd l"
    and "collateralUSD c = totalSuppliedUsd l"
    and "equity c = sub (collateralUSD c) (debt c)"
    and "ltvMax c = weightedAverage (supplied l) maxLTV"
    and "lt c = weightedAverage (supplied l) liqThreshold"
    and "rSupply c = weightedAverage (supplied l) supplyRate"
    and "rBorrow c = borrowRate (borrowed l)"
    and "rDeploy c = Fin 0"
    and "ltv c = (if greater_num (collateralUSD c) (Fin 0)
                  then divide_num (debt c) (collateralUSD c) else Fin 0)"
    and "leverage c = (if greater_num (equity c) (Fin 0)
                       then divide_num (collateralUSD c) (equity c) else PInf)"
    and "healthFactor c = (if greater_num (debt c) (Fin 0)
                           then divide_num (mul (collateralUSD c) (lt c)) (debt c) else PInf)"
    and "units c = (case p of None \<Rightarrow> Fin 0 | Some a \<Rightarrow> amount a)"
    and "px c = (case p of None \<Rightarrow> Fin 0 | Some a \<Rightarrow> usdPrice a)"
    and "primaryCollateralSymbol c = (case p of None \<Rightarrow> em_dash | Some a \<Rightarrow> symbol a)"
    and "collateralUSDAtLiq c = (if greater_num (lt c) (Fin 0)
                                 then divide_num (debt c) (lt c) else PInf)"
    and "liqPrice c = (if greater_num (units c) (Fin 0)
                       then divide_num
                              (sub (collateralUSDAtLiq c)
                                 (sub (collateralUSD c)
                                    (case p of None \<Rightarrow> Fin 0 | Some a \<Rightarrow> usdValue a)))
                              (units c)
                       else PInf)"
    and "ltvAtLiq c = (if greater_num (collateralUSDAtLiq c) (Fin 0)
                       then divide_num (debt c) (collateralUSDAtLiq c) else Fin 0)"
    and "priceDropToLiq c = (if greater_num (px c) (Fin 0) \<and> isFinite (liqPrice c)
                             then divide_num (sub (px c) (liqPrice c)) (px c) else Fin 0)"
    and "supplyEarnUSD c = mul (collateralUSD c) (rSupply c)"
    and "borrowCostUSD c = mul (debt c) (rBorrow c)"
    and "deployEarnUSD c = mul (debt c) (rDeploy c)"
    and "netEarnUSD c = sub (add (supplyEarnUSD c) (deployEarnUSD c)) (borrowCostUSD c)"
    and "netAPYOnEquity c = (if greater_num (equity c) (Fin 0)
                             then divide_num (netEarnUSD c) (equity c) else Fin 0)"
    and "maxBorrowByLTV c = mul (collateralUSD c) (ltvMax c)"
    and "borrowHeadroom c = sub (maxBorrowByLTV c) (debt c)"
    and "borrowPowerUsed c = (if greater_num (maxBorrowByLTV c) (Fin 0)
                              then divide_num (debt c) (maxBorrowByLTV c) else Fin 0)"
    and "equityMoveFor10Pct c = (if isFinite (leverage c) then mul (leverage c) (Fin 0.1)
                                 else Fin 0)"
    and "collateralBufferUSD c = sub (collateralUSD c) (collateralUSDAtLiq c)"
    and "alertHF c = less_num (healthFactor c) (Fin 1.5)"
    and "alertLTV c = greater_num (ltv c) (mul (Fin 0.7) (lt c))"
  using assms by (auto simp: Let_def)

section \<open>The metrics of no selection\<close>

text \<open>
  Claim C2. Applied to no selection (\<open>null\<close>), \<open>computeLoanMetrics\<close> does not fail and
  returns the neutral record: debt 0, health factor \<open>+infinity\<close>, the three rates 0, leverage
  0, liquidation price and collateral value at liquidation \<open>+infinity\<close>, every other number 0,
  both alerts false, and the dash U+2014 as the symbol of the primary collateral.
\<close>

theorem no_selection_neutral_metrics:
  "computeLoanMetrics None =
     Inr \<lparr> units = Fin 0, px = Fin 0, debt = Fin 0, collateralUSD = Fin 0, equity = Fin 0,
           ltv = Fin 0, leverage = Fin 0, healthFactor = PInf, liqPrice = PInf,
           collateralUSDAtLiq = PInf, ltvAtLiq = Fin 0, priceDropToLiq = Fin 0,
           supplyEarnUSD = Fin 0, borrowCostUSD = Fin 0, deployEarnUSD = Fin 0,
           netEarnUSD = Fin 0, netAPYOnEquity = Fin 0, maxBorrowByLTV = Fin 0,
           borrowHeadroom = Fin 0, borrowPowerUsed = Fin 0, equityMoveFor10Pct = Fin 0,
           collateralBufferUSD = Fin 0, alertHF = False, alertLTV = False,
           ltvMax = Fin 0, lt = Fin 0, rSupply = Fin 0, rBorrow = Fin 0, rDeploy = Fin 0,
           primaryCollateralSymbol = [CHR 0xE2, CHR 0x80, CHR 0x94] \<rparr>"
  by (simp add: em_dash_def)

section \<open>Facts about finite numbers and the weighted average\<close>

lemma isFinite_iff: "isFinite x \<longleftrightarrow> (\<exists>a. x = Fin a)"
  by (cases x) simp_all

lemma nonneg_iff: "nonneg x \<longleftrightarrow> (\<exists>a. x = Fin a \<and> 0 \<le> a)"
  by (cases x) simp_all

lemma foldl_add_Fin:
  "\<forall>x\<in>set xs. isFinite (f x) \<Longrightarrow>
   foldl (\<lambda>s x. add s (f x)) (Fin a) xs = Fin (a + sum_list (map (\<lambda>x. real_of (f x)) xs))"
proof (induction xs arbitrary: a)
  case Nil
  then show ?case by simp
next
  case (Cons x xs)
  then obtain b where b: "f x = Fin b" by (auto simp: isFinite_iff)
  with Cons show ?case by (simp add: add.assoc)
qed

text \<open>
  With the exact operations, the weighted average of finite weights and values is the
  quotient of two real sums. The two lemmas after it are what the claims use: a finite
  result, and a result that is not negative.
\<close>

lemma weightedAverage_finite:
  assumes "\<forall>a\<in>set items. isFinite (usdValue a) \<and> isFinite (sel a)"
  shows "weightedAverage items sel =
           (if sum_list (map (\<lambda>a. real_of (usdValue a)) items) \<le> 0 then Fin 0
            else Fin (sum_list (map (\<lambda>a. real_of (sel a) * real_of (usdValue a)) items)
                      / sum_list (map (\<lambda>a. real_of (usdValue a)) items)))"
proof -
  have t: "foldl (\<lambda>s a. add s (usdValue a)) (Fin 0) items
           = Fin (sum_list (map (\<lambda>a. real_of (usdValue a)) items))"
    using foldl_add_Fin [of items usdValue 0] assms by simp
  have "\<forall>a\<in>set items. isFinite (mul (sel a) (usdValue a))"
    using assms by (auto simp: isFinite_iff)
  then have w: "foldl (\<lambda>s a. add s (mul (sel a) (usdValue a))) (Fin 0) items
           = Fin (sum_list (map (\<lambda>a. real_of (mul (sel a) (usdValue a))) items))"
    using foldl_add_Fin [of items "\<lambda>a. mul (sel a) (usdValue a)" 0] by simp
  have m: "map (\<lambda>a. real_of (mul (sel a) (usdValue a))) items
        = map (\<lambda>a. real_of (sel a) * real_of (usdValue a)) items"
    using assms by (auto simp: isFinite_iff)
  show ?thesis
    unfolding weightedAverage_def reduce_def Let_def t w m
    by (auto simp: less_eq_num_def)
qed


lemma weightedAverage_nonneg:
  assumes "\<forall>a\<in>set items. nonneg (usdValue a) \<and> nonneg (sel a)"
  shows "nonneg (weightedAverage items sel)"
proof -
  have f: "\<forall>a\<in>set items. isFinite (usdValue a) \<and> isFinite (sel a)"
    using assms by (auto simp: nonneg_iff)
  have "0 \<le> sum_list (map (\<lambda>a. real_of (sel a) * real_of (usdValue a)) items)"
    using assms by (intro sum_list_nonneg) (auto simp: nonneg_iff)
  then show ?thesis
    by (simp add: weightedAverage_finite [OF f])
qed

lemmas example_defs = loan_a_def asset_weth_def asset_usdc_def asset_wbtc_def
  loan_unpriced_debt_def loan_negative_price_def loan_infinite_price_def
  loan_no_collateral_def loan_tie_def

lemmas eval_simps = primaryCollateral_def weightedAverage_def reduce_def Let_def
  greater_num_def less_eq_num_def sub_def

section \<open>Health factor\<close>

text \<open>
  Claim C1, as amended. For every loan, \<open>computeLoanMetrics\<close> takes the debt and the
  collateral from the loan's totals; the health factor is the host's
  \<open>(collateralUSD * lt) / debt\<close> when \<open>debt > 0\<close>, and \<open>+infinity\<close> whenever the debt is
  not \<open>> 0\<close>, in particular when it is 0. For a positive finite debt, with \<open>collateralUSD\<close>
  and \<open>lt\<close> finite and not negative, the health factor is not NaN and not negative.
  (That it is finite is not stated: the product and the quotient of finite numbers of the
  host can exceed its largest number.)
  For a positive debt with zero collateral and a finite \<open>lt\<close> it is 0, and \<open>lt\<close> is 0 when
  nothing is supplied.
\<close>

theorem health_factor_rule:
  assumes "computeLoanMetrics (Some l) = Inr c"
  shows "debt c = totalBorrowedUsd l \<and> collateralUSD c = totalSuppliedUsd l
       \<and> lt c = weightedAverage (supplied l) liqThreshold
       \<and> (greater_num (debt c) (Fin 0) \<longrightarrow>
            healthFactor c = divide_num (mul (collateralUSD c) (lt c)) (debt c))
       \<and> (\<not> greater_num (debt c) (Fin 0) \<longrightarrow> healthFactor c = PInf)
       \<and> (debt c = Fin 0 \<longrightarrow> healthFactor c = PInf)
       \<and> (greater_num (debt c) (Fin 0) \<and> isFinite (debt c)
            \<and> nonneg (collateralUSD c) \<and> nonneg (lt c) \<longrightarrow>
            healthFactor c \<noteq> NaN \<and> less_eq_num (Fin 0) (healthFactor c))
       \<and> (greater_num (debt c) (Fin 0) \<and> collateralUSD c = Fin 0 \<and> isFinite (lt c) \<longrightarrow>
            healthFactor c = Fin 0)
       \<and> (supplied l = [] \<longrightarrow> lt c = Fin 0)"
proof -
  obtain p where p: "primaryCollateral l = Inr p"
    by (simp add: primaryCollateral_Inr)
  note f = computeLoanMetrics_fields [OF assms p]
  have u: "debt c = totalBorrowedUsd l \<and> collateralUSD c = totalSuppliedUsd l
       \<and> lt c = weightedAverage (supplied l) liqThreshold"
    using f(1,2,5) by simp
  have v: "greater_num (debt c) (Fin 0) \<longrightarrow>
            healthFactor c = divide_num (mul (collateralUSD c) (lt c)) (debt c)"
    using f(11) by simp
  have w: "\<not> greater_num (debt c) (Fin 0) \<longrightarrow> healthFactor c = PInf"
    using f(11) by simp
  have z: "debt c = Fin 0 \<longrightarrow> healthFactor c = PInf"
    using f(11) by (simp add: greater_num_def)
  have g: "healthFactor c \<noteq> NaN \<and> less_eq_num (Fin 0) (healthFactor c)"
    if h: "greater_num (debt c) (Fin 0)" "isFinite (debt c)"
       "nonneg (collateralUSD c)" "nonneg (lt c)"
  proof -
    from h(2) obtain d where d: "debt c = Fin d" by (auto simp: isFinite_iff)
    from h(1) have d0: "0 < d" unfolding d by (simp add: greater_num_def)
    from h(3) obtain k where k: "collateralUSD c = Fin k" "0 \<le> k" by (auto simp: nonneg_iff)
    from h(4) obtain t where t: "lt c = Fin t" "0 \<le> t" by (auto simp: nonneg_iff)
    have "0 \<le> k * t / d" using d0 k(2) t(2) by simp
    with d0 show ?thesis
      unfolding f(11) d k t
      by (auto simp: greater_num_def less_eq_num_def)
  qed
  have e: "healthFactor c = Fin 0"
    if h: "greater_num (debt c) (Fin 0)" "collateralUSD c = Fin 0" "isFinite (lt c)"
  proof -
    from h(3) obtain t where t: "lt c = Fin t" by (auto simp: isFinite_iff)
    from h(1) show ?thesis
      unfolding f(11) h(2) t
      by (cases "debt c") (simp_all add: greater_num_def)
  qed
  have n: "supplied l = [] \<longrightarrow> lt c = Fin 0"
    unfolding f(5) by (simp add: weightedAverage_def reduce_def less_eq_num_def)
  from u v w z g e n show ?thesis by blast
qed

text \<open>
  Scenario A has health factor 1.65, the debt without collateral has health factor 0, and
  the loan whose debt is 0 has health factor \<open>+infinity\<close>.
\<close>

theorem health_factor_rule_witness:
  "map_sum id healthFactor (computeLoanMetrics (Some loan_a)) = Inr (Fin 1.65)
   \<and> map_sum id healthFactor (computeLoanMetrics (Some loan_no_collateral)) = Inr (Fin 0)
   \<and> map_sum id healthFactor (computeLoanMetrics (Some loan_unpriced_debt)) = Inr PInf"
proof -
  obtain c where c: "computeLoanMetrics (Some loan_a) = Inr c"
    using computeLoanMetrics_returns by blast
  have w: "weightedAverage (supplied loan_a) liqThreshold = Fin 0.825"
    by (simp add: weightedAverage_def reduce_def less_eq_num_def loan_a_def asset_weth_def)
  from health_factor_rule [OF c] w
  have 1: "healthFactor c = Fin 1.65"
    by (simp add: loan_a_def greater_num_def)
  obtain c' where c': "computeLoanMetrics (Some loan_no_collateral) = Inr c'"
    using computeLoanMetrics_returns by blast
  have w': "weightedAverage (supplied loan_no_collateral) liqThreshold = Fin 0"
    by (simp add: weightedAverage_def reduce_def less_eq_num_def loan_no_collateral_def)
  from health_factor_rule [OF c'] w'
  have 2: "healthFactor c' = Fin 0"
    by (simp add: loan_no_collateral_def greater_num_def)
  obtain c'' where c'': "computeLoanMetrics (Some loan_unpriced_debt) = Inr c''"
    using computeLoanMetrics_returns by blast
  from health_factor_rule [OF c'']
  have 3: "healthFactor c'' = PInf"
    by (simp add: loan_unpriced_debt_def)
  from 1 2 3 c c' c'' show ?thesis by simp
qed

text \<open>
  The claim as stated fails where the debt is negative: with the price \<open>-1\<close> for the
  borrowed asset the debt is \<open>-15000\<close>, not 0, and the health factor is \<open>+infinity\<close>.
\<close>

theorem health_factor_rule_counterexample:
  "map_sum id debt (computeLoanMetrics (Some loan_negative_price)) = Inr (Fin (- 15000))
   \<and> map_sum id healthFactor (computeLoanMetrics (Some loan_negative_price)) = Inr PInf"
  by (simp add: example_defs eval_simps)

section \<open>Liquidation figures\<close>

text \<open>
  Claim C4. For every loan, \<open>collateralUSDAtLiq\<close> is \<open>debt / lt\<close> if \<open>lt > 0\<close> and
  \<open>+infinity\<close> otherwise; and when a primary collateral asset exists, \<open>liqPrice\<close> is
  \<open>(collateralUSDAtLiq - (collateralUSD - primary.usdValue)) / primary.amount\<close> if
  \<open>primary.amount > 0\<close> and \<open>+infinity\<close> otherwise.
\<close>

theorem liquidation_figures:
  assumes "computeLoanMetrics (Some l) = Inr c"
  shows "debt c = totalBorrowedUsd l \<and> collateralUSD c = totalSuppliedUsd l
       \<and> lt c = weightedAverage (supplied l) liqThreshold
       \<and> collateralUSDAtLiq c =
           (if greater_num (lt c) (Fin 0) then divide_num (debt c) (lt c) else PInf)
       \<and> (\<forall>primary. primaryCollateral l = Inr (Some primary) \<longrightarrow>
            liqPrice c =
              (if greater_num (amount primary) (Fin 0)
               then divide_num
                      (sub (collateralUSDAtLiq c) (sub (collateralUSD c) (usdValue primary)))
                      (amount primary)
               else PInf))"
proof -
  obtain p where p: "primaryCollateral l = Inr p"
    by (simp add: primaryCollateral_Inr)
  note f = computeLoanMetrics_fields [OF assms p]
  show ?thesis
    using p by (auto simp: f(1,2,5,12,15,16))
qed

text \<open>In scenario A the collateral value at liquidation is 200000/11 and the liquidation
  price of the primary collateral 20000/11.\<close>

theorem liquidation_figures_witness:
  "map_sum id collateralUSDAtLiq (computeLoanMetrics (Some loan_a)) = Inr (Fin (200000 / 11))
   \<and> map_sum id liqPrice (computeLoanMetrics (Some loan_a)) = Inr (Fin (20000 / 11))"
proof -
  obtain c where c: "computeLoanMetrics (Some loan_a) = Inr c"
    using computeLoanMetrics_returns by blast
  have p: "primaryCollateral loan_a = Inr (Some asset_weth)"
    by (simp add: primaryCollateral_def loan_a_def)
  have w: "weightedAverage (supplied loan_a) liqThreshold = Fin 0.825"
    by (simp add: weightedAverage_def reduce_def less_eq_num_def loan_a_def asset_weth_def)
  from liquidation_figures [OF c] p w
  have "collateralUSDAtLiq c = Fin (200000 / 11) \<and> liqPrice c = Fin (20000 / 11)"
    by (simp add: loan_a_def asset_weth_def greater_num_def sub_def)
  with c show ?thesis by simp
qed

section \<open>Leverage of a debt-free loan\<close>

lemma leverage_infinite_iff:
  assumes "computeLoanMetrics (Some l) = Inr c"
  shows "leverage c = PInf \<longleftrightarrow> \<not> greater_num (equity c) (Fin 0)"
proof -
  obtain p where p: "primaryCollateral l = Inr p"
    by (simp add: primaryCollateral_Inr)
  note f = computeLoanMetrics_fields [OF assms p]
  show ?thesis
    unfolding f(10) f(3)
    by (cases "collateralUSD c"; cases "debt c") (auto simp: greater_num_def sub_def)
qed

text \<open>
  Claim C9, as amended. The leverage is \<open>+infinity\<close> exactly when the equity is not
  positive. For a loan with debt 0, finite collateral and positive equity the leverage is
  \<open>collateralUSD / equity = 1\<close>; and for a loan with debt 0 and a finite borrow rate the
  carry fields show no borrow cost: \<open>borrowCostUSD = 0\<close>, \<open>deployEarnUSD = 0\<close> and
  \<open>netEarnUSD = supplyEarnUSD\<close>.
\<close>

theorem debt_free_leverage:
  assumes "computeLoanMetrics (Some l) = Inr c"
  shows "(leverage c = PInf \<longleftrightarrow> \<not> greater_num (equity c) (Fin 0))
       \<and> (totalBorrowedUsd l = Fin 0 \<and> isFinite (totalSuppliedUsd l)
            \<and> greater_num (equity c) (Fin 0) \<longrightarrow> leverage c = Fin 1)
       \<and> (totalBorrowedUsd l = Fin 0 \<and> isFinite (borrowRate (borrowed l)) \<longrightarrow>
            borrowCostUSD c = Fin 0 \<and> deployEarnUSD c = Fin 0
            \<and> netEarnUSD c = supplyEarnUSD c)"
proof -
  obtain p where p: "primaryCollateral l = Inr p"
    by (simp add: primaryCollateral_Inr)
  note f = computeLoanMetrics_fields [OF assms p]
  have a: "leverage c = PInf \<longleftrightarrow> \<not> greater_num (equity c) (Fin 0)"
    using leverage_infinite_iff [OF assms] .
  have b: "leverage c = Fin 1"
    if "totalBorrowedUsd l = Fin 0" "isFinite (totalSuppliedUsd l)" "greater_num (equity c) (Fin 0)"
  proof -
    from that(2) obtain k where k: "totalSuppliedUsd l = Fin k" by (auto simp: isFinite_iff)
    have e: "equity c = Fin k" using that(1) k by (simp add: f(1,2,3) sub_def)
    with that(3) have "0 < k" by (simp add: greater_num_def)
    then show ?thesis using e k by (simp add: f(10) f(2) greater_num_def)
  qed
  have d: "borrowCostUSD c = Fin 0 \<and> deployEarnUSD c = Fin 0 \<and> netEarnUSD c = supplyEarnUSD c"
    if "totalBorrowedUsd l = Fin 0" "isFinite (borrowRate (borrowed l))"
  proof -
    from that(2) obtain r where r: "borrowRate (borrowed l) = Fin r" by (auto simp: isFinite_iff)
    have 1: "borrowCostUSD c = Fin 0" using that(1) r by (simp add: f(20) f(1) f(7))
    have 2: "deployEarnUSD c = Fin 0" using that(1) by (simp add: f(21) f(1) f(8))
    have 3: "netEarnUSD c = supplyEarnUSD c"
      unfolding f(22) 1 2 by (simp add: add_zero_right sub_zero_right)
    from 1 2 3 show ?thesis by simp
  qed
  from a b d show ?thesis by blast
qed

text \<open>The loan whose debt has no price: leverage 1, no borrow cost, net earnings 600.\<close>

theorem debt_free_leverage_witness:
  "map_sum id leverage (computeLoanMetrics (Some loan_unpriced_debt)) = Inr (Fin 1)
   \<and> map_sum id borrowCostUSD (computeLoanMetrics (Some loan_unpriced_debt)) = Inr (Fin 0)
   \<and> map_sum id netEarnUSD (computeLoanMetrics (Some loan_unpriced_debt)) = Inr (Fin 600)"
proof -
  obtain c where c: "computeLoanMetrics (Some loan_unpriced_debt) = Inr c"
    using computeLoanMetrics_returns by blast
  then have e: "equity c = Fin 30000" and s: "supplyEarnUSD c = Fin 600"
    by (auto simp: example_defs eval_simps)
  from debt_free_leverage [OF c] e s
  have "leverage c = Fin 1 \<and> borrowCostUSD c = Fin 0 \<and> netEarnUSD c = Fin 600"
    by (simp add: loan_unpriced_debt_def asset_usdc_def greater_num_def)
  with c show ?thesis by simp
qed

text \<open>
  The claim as stated fails on that loan: the debt is 0 and the equity 30000 is positive,
  yet the leverage is 1 and not \<open>+infinity\<close>.
\<close>

theorem debt_free_leverage_counterexample:
  "map_sum id debt (computeLoanMetrics (Some loan_unpriced_debt)) = Inr (Fin 0)
   \<and> map_sum id equity (computeLoanMetrics (Some loan_unpriced_debt)) = Inr (Fin 30000)
   \<and> map_sum id leverage (computeLoanMetrics (Some loan_unpriced_debt)) = Inr (Fin 1)
   \<and> map_sum id leverage (computeLoanMetrics (Some loan_unpriced_debt)) \<noteq> Inr PInf"
  by (simp add: example_defs eval_simps)

section \<open>Absence of NaN\<close>







section \<open>Primary collateral\<close>

lemma less_num_step: "less_num m y \<Longrightarrow> \<not> less_num m j \<Longrightarrow> \<not> less_num y j"
  by (cases m; cases y; cases j) simp_all

lemma less_num_irrefl: "\<not> less_num x x"
  by (cases x) simp_all

lemma less_eq_num_total: "x \<noteq> NaN \<Longrightarrow> y \<noteq> NaN \<Longrightarrow> \<not> greater_num x y \<Longrightarrow> less_eq_num x y"
  by (cases x; cases y) (auto simp: greater_num_def less_eq_num_def)

text \<open>
  The fold that picks the primary collateral returns the element at some index; no element
  is greater than it, and no earlier element has the same value.
\<close>

lemma foldl_pick_index:
  "\<exists>i<length (x # xs).
      foldl (\<lambda>mx current. if greater_num (usdValue current) (usdValue mx) then current else mx) x xs
        = (x # xs) ! i
      \<and> (\<forall>j<length (x # xs). \<not> greater_num (usdValue ((x # xs) ! j)) (usdValue ((x # xs) ! i)))
      \<and> (\<forall>j<i. usdValue ((x # xs) ! j) \<noteq> usdValue ((x # xs) ! i))"
proof (induction xs rule: rev_induct)
  case Nil
  show ?case by (simp add: greater_num_def less_num_irrefl)
next
  case (snoc y xs)
  let ?pick = "\<lambda>mx current. if greater_num (usdValue current) (usdValue mx) then current else mx"
  let ?ys = "x # xs"
  let ?zs = "x # xs @ [y]"
  from snoc obtain i where i: "i < length ?ys" "foldl ?pick x xs = ?ys ! i"
    and mx: "\<And>j. j < length ?ys \<Longrightarrow> \<not> greater_num (usdValue (?ys ! j)) (usdValue (?ys ! i))"
    and first: "\<And>j. j < i \<Longrightarrow> usdValue (?ys ! j) \<noteq> usdValue (?ys ! i)"
    by blast
  have nth_old: "?zs ! j = ?ys ! j" if "j < length ?ys" for j
    using that by (metis append_Cons nth_append)
  have nth_new: "?zs ! length ?ys = y"
    by (metis append_Cons nth_append_length)
  have len: "length ?zs = Suc (length ?ys)" by simp
  have step: "foldl ?pick x (xs @ [y]) = ?pick (?ys ! i) y"
    using i(2) by simp
  show ?case
  proof (cases "greater_num (usdValue y) (usdValue (?ys ! i))")
    case True
    have a: "foldl ?pick x (xs @ [y]) = ?zs ! length ?ys"
      unfolding step nth_new using True by simp
    have b: "\<not> greater_num (usdValue (?zs ! j)) (usdValue (?zs ! length ?ys))"
      if "j < length ?zs" for j
    proof (cases "j < length ?ys")
      case True
      have 1: "less_num (usdValue (?ys ! i)) (usdValue y)"
        using \<open>greater_num (usdValue y) (usdValue (?ys ! i))\<close> by (simp add: greater_num_def)
      have 2: "\<not> less_num (usdValue (?ys ! i)) (usdValue (?ys ! j))"
        using mx [OF True] by (simp add: greater_num_def)
      have "\<not> less_num (usdValue y) (usdValue (?ys ! j))"
        using 1 2 by (rule less_num_step)
      then show ?thesis
        unfolding nth_new nth_old [OF True] by (simp add: greater_num_def)
    next
      case False
      with that have "j = length ?ys" by simp
      then show ?thesis
        by (simp add: greater_num_def less_num_irrefl)
    qed
    have c: "usdValue (?zs ! j) \<noteq> usdValue (?zs ! length ?ys)" if "j < length ?ys" for j
    proof
      assume "usdValue (?zs ! j) = usdValue (?zs ! length ?ys)"
      then have "usdValue (?ys ! j) = usdValue y"
        unfolding nth_new nth_old [OF that] .
      with True have "greater_num (usdValue (?ys ! j)) (usdValue (?ys ! i))" by simp
      with mx [OF that] show False by blast
    qed
    have "length ?ys < length ?zs" by simp
    with a b c show ?thesis by blast
  next
    case False
    have zi: "?zs ! i = ?ys ! i" using i(1) by (rule nth_old)
    have a: "foldl ?pick x (xs @ [y]) = ?zs ! i"
      unfolding step zi using False by simp
    have b: "\<not> greater_num (usdValue (?zs ! j)) (usdValue (?zs ! i))"
      if "j < length ?zs" for j
    proof (cases "j < length ?ys")
      case True
      show ?thesis unfolding zi nth_old [OF True] using mx [OF True] .
    next
      case F: False
      with that have "j = length ?ys" by simp
      then have "?zs ! j = y" using nth_new by simp
      then show ?thesis unfolding zi using False by simp
    qed
    have c: "usdValue (?zs ! j) \<noteq> usdValue (?zs ! i)" if "j < i" for j
    proof -
      from that i(1) have "j < length ?ys" by simp
      then have "?zs ! j = ?ys ! j" by (rule nth_old)
      then show ?thesis unfolding zi using first [OF that] by simp
    qed
    have "i < length ?zs" using i(1) by simp
    with a b c show ?thesis by blast
  qed
qed

text \<open>
  Claim C8. For a loan with a non-empty supplied list the primary collateral is a supplied
  asset than which no supplied asset has a greater \<open>usdValue\<close> (so every comparable value
  is at most its value), and no asset before it in the list has the same value: on a tie the
  first one is chosen. It gives the result its units, price and symbol. For an empty supplied
  list the primary is null, and units, price, liquidation price and price drop are 0, 0,
  \<open>+infinity\<close> and 0.
\<close>

theorem primary_collateral_choice:
  "(supplied l \<noteq> [] \<longrightarrow>
      (\<exists>i<length (supplied l).
          primaryCollateral l = Inr (Some (supplied l ! i))
        \<and> (\<forall>j<length (supplied l).
              \<not> greater_num (usdValue (supplied l ! j)) (usdValue (supplied l ! i))
            \<and> (usdValue (supplied l ! j) \<noteq> NaN \<and> usdValue (supplied l ! i) \<noteq> NaN \<longrightarrow>
                 less_eq_num (usdValue (supplied l ! j)) (usdValue (supplied l ! i))))
        \<and> (\<forall>j<i. usdValue (supplied l ! j) \<noteq> usdValue (supplied l ! i))
        \<and> (\<exists>c. computeLoanMetrics (Some l) = Inr c
              \<and> units c = amount (supplied l ! i) \<and> px c = usdPrice (supplied l ! i)
              \<and> primaryCollateralSymbol c = symbol (supplied l ! i))))
   \<and> (supplied l = [] \<longrightarrow>
        primaryCollateral l = Inr None
      \<and> (\<exists>c. computeLoanMetrics (Some l) = Inr c
            \<and> units c = Fin 0 \<and> px c = Fin 0 \<and> liqPrice c = PInf \<and> priceDropToLiq c = Fin 0
            \<and> primaryCollateralSymbol c = em_dash))"
proof -
  obtain c where c: "computeLoanMetrics (Some l) = Inr c"
    using computeLoanMetrics_returns by blast
  have empty: ?thesis if "supplied l = []"
  proof -
    from that have p: "primaryCollateral l = Inr None" by (simp add: primaryCollateral_Inr)
    note f = computeLoanMetrics_fields [OF c p]
    have "units c = Fin 0 \<and> px c = Fin 0 \<and> liqPrice c = PInf \<and> priceDropToLiq c = Fin 0
            \<and> primaryCollateralSymbol c = em_dash"
      by (simp add: f(12,13,14,16,18) greater_num_def)
    with c p that show ?thesis by blast
  qed
  have nonempty: ?thesis if "supplied l \<noteq> []"
  proof -
    from that obtain x xs where xs: "supplied l = x # xs" by (cases "supplied l") auto
    from foldl_pick_index [of x xs] obtain i where i: "i < length (x # xs)"
      and pk: "foldl (\<lambda>mx current. if greater_num (usdValue current) (usdValue mx) then current else mx) x xs
                 = (x # xs) ! i"
      and mx: "\<forall>j<length (x # xs). \<not> greater_num (usdValue ((x # xs) ! j)) (usdValue ((x # xs) ! i))"
      and first: "\<forall>j<i. usdValue ((x # xs) ! j) \<noteq> usdValue ((x # xs) ! i)"
      by blast
    have p: "primaryCollateral l = Inr (Some (supplied l ! i))"
      using xs pk by (simp add: primaryCollateral_Inr)
    note f = computeLoanMetrics_fields [OF c p]
    have m2: "\<forall>j<length (supplied l).
              \<not> greater_num (usdValue (supplied l ! j)) (usdValue (supplied l ! i))
            \<and> (usdValue (supplied l ! j) \<noteq> NaN \<and> usdValue (supplied l ! i) \<noteq> NaN \<longrightarrow>
                 less_eq_num (usdValue (supplied l ! j)) (usdValue (supplied l ! i)))"
      using mx xs less_eq_num_total by auto
    have fs: "units c = amount (supplied l ! i) \<and> px c = usdPrice (supplied l ! i)
              \<and> primaryCollateralSymbol c = symbol (supplied l ! i)"
      by (simp add: f(12,13,14))
    have "i < length (supplied l)" using i xs by simp
    moreover have "\<forall>j<i. usdValue (supplied l ! j) \<noteq> usdValue (supplied l ! i)"
      using first xs by simp
    ultimately show ?thesis using p m2 fs c that by blast
  qed
  from empty nonempty show ?thesis by blast
qed

text \<open>
  Of two supplied assets of equal value the first is the primary collateral, and a loan
  without collateral has none.
\<close>

theorem primary_collateral_choice_witness:
  "primaryCollateral loan_tie = Inr (Some asset_weth)
   \<and> primaryCollateral loan_no_collateral = Inr None"
proof -
  have s: "supplied loan_tie = [asset_weth, asset_wbtc]" by (simp add: loan_tie_def)
  have ne: "supplied loan_tie \<noteq> []" by (simp add: s)
  have v: "usdValue asset_weth = usdValue asset_wbtc" by (simp add: example_defs)
  from conjunct1 [OF primary_collateral_choice [of loan_tie], THEN mp, OF ne]
  obtain i where i: "i < length (supplied loan_tie)"
    and p: "primaryCollateral loan_tie = Inr (Some (supplied loan_tie ! i))"
    and first: "\<forall>j<i. usdValue (supplied loan_tie ! j) \<noteq> usdValue (supplied loan_tie ! i)"
    by blast
  have "i = 0"
  proof (rule ccontr)
    assume "i \<noteq> 0"
    with i have i1: "i = 1" by (simp add: s)
    from first i1 have "usdValue (supplied loan_tie ! 0) \<noteq> usdValue (supplied loan_tie ! 1)"
      by simp
    with v show False by (simp add: s)
  qed
  with p have 1: "primaryCollateral loan_tie = Inr (Some asset_weth)" by (simp add: s)
  have e: "supplied loan_no_collateral = []" by (simp add: loan_no_collateral_def)
  from conjunct2 [OF primary_collateral_choice [of loan_no_collateral], THEN mp, OF e]
  have 2: "primaryCollateral loan_no_collateral = Inr None" by (rule conjunct1)
  from 1 2 show ?thesis by simp
qed

section \<open>Evaluation of the rounding\<close>

lemma floor_log2_eq:
  assumes "2 powi k \<le> \<bar>x\<bar>" and "\<bar>x\<bar> < 2 powi (k + 1)"
  shows "\<lfloor>log 2 \<bar>x\<bar>\<rfloor> = k"
proof -
  have pos: "0 < \<bar>x\<bar>"
    using assms(1) by (smt (verit) zero_less_power_int)
  have "(2::real) powr (of_int k) = 2 powi k" by (simp add: powr_real_of_int')
  moreover have "(2::real) powr (of_int k + 1) = 2 powi (k + 1)"
    using powr_real_of_int' [of 2 "k + 1"] by simp
  ultimately show ?thesis
    using assms pos by (simp add: floor_log_eq_powr_iff)
qed

text \<open>Within a binade the exponent of the last bit is known.\<close>

lemma round64_binade:
  assumes "2 powi k \<le> \<bar>x\<bar>" and "\<bar>x\<bar> < 2 powi (k + 1)"
  shows "round64 x =
           (let e = max k (- 1022) - 52;
                y = of_int (round_half_even (x / 2 powi e)) * 2 powi e
            in if 2 ^ 1024 \<le> \<bar>y\<bar> then (if 0 < x then PInf else NInf) else Fin y)"
proof -
  have "x \<noteq> 0" using assms(1) by (smt (verit) zero_less_power_int abs_zero)
  then show ?thesis
    unfolding round64_def floor_log2_eq [OF assms] by simp
qed

text \<open>
  The integers up to \<open>2^53\<close> are numbers of the host; \<open>2^53 + 1\<close> is not, and rounds to
  \<open>2^53\<close>.
\<close>

lemma round64_1: "round64 1 = Fin 1"
  using round64_binade [of 0 1] by (simp add: round_half_even_def power_int_minus)

lemma round64_2: "round64 2 = Fin 2"
  using round64_binade [of 1 2] by (simp add: round_half_even_def power_int_minus)

lemma round64_2_53_minus_1: "round64 (2 ^ 53 - 1) = Fin (2 ^ 53 - 1)"
  using round64_binade [of 52 "2 ^ 53 - 1"] by (simp add: round_half_even_def)

lemma round64_2_53: "round64 (2 ^ 53) = Fin (2 ^ 53)"
  using round64_binade [of 53 "2 ^ 53"] by (simp add: round_half_even_def)

lemma round64_2_53_plus_1: "round64 (2 ^ 53 + 1) = Fin (2 ^ 53)"
  using round64_binade [of 53 "2 ^ 53 + 1"] by (simp add: round_half_even_def)

section \<open>Portfolio rollup\<close>

text \<open>
  Claim C5. For every list of per-loan metrics, the average health factor of the portfolio
  is the arithmetic mean of the health factors that are finite, as the host computes it
  (their sum, added from the left starting at 0, divided by their number), and
  \<open>+infinity\<close> when none is finite; two loans with health factors 1.8 and \<open>+infinity\<close> give
  1.8.
\<close>

theorem average_health_factor:
  "averageHealthFactor (portfolioOfMetrics metrics) =
     (if filter isFinite (map healthFactor metrics) = [] then PInf
      else divide_num
             (reduce (\<lambda>sum item. add sum item) (Fin 0) (filter isFinite (map healthFactor metrics)))
             (length_num (filter isFinite (map healthFactor metrics))))
   \<and> (healthFactor c1 = Fin 1.8 \<and> healthFactor c2 = PInf \<longrightarrow>
        averageHealthFactor (portfolioOfMetrics [c1, c2]) = Fin 1.8)"
proof -
  have main: "averageHealthFactor (portfolioOfMetrics ms) =
     (if filter isFinite (map healthFactor ms) = [] then PInf
      else divide_num
             (reduce (\<lambda>sum item. add sum item) (Fin 0) (filter isFinite (map healthFactor ms)))
             (length_num (filter isFinite (map healthFactor ms))))" for ms
    by (simp add: portfolioOfMetrics_def Let_def length_num_def greater_num_def)
  have ex: "averageHealthFactor (portfolioOfMetrics [c1, c2]) = Fin 1.8"
    if "healthFactor c1 = Fin 1.8" "healthFactor c2 = PInf"
    unfolding main using that by (simp add: reduce_def length_num_def)
  from main ex show ?thesis by blast
qed

text \<open>The example of the claim, on two concrete records.\<close>

theorem average_health_factor_witness:
  "averageHealthFactor
     (portfolioOfMetrics [metrics_with_health (Fin 1.8), metrics_with_health PInf]) = Fin 1.8"
  using average_health_factor
    [of "[]" "metrics_with_health (Fin 1.8)" "metrics_with_health PInf"]
  by (simp add: metrics_with_health_def)

lemma map_raising_computeLoanMetrics:
  "\<exists>ms. map_raising (\<lambda>loan. computeLoanMetrics (Some loan)) ls = Inr ms
        \<and> (\<forall>c\<in>set ms. \<exists>l\<in>set ls. computeLoanMetrics (Some l) = Inr c)"
proof (induction ls)
  case Nil
  show ?case by simp
next
  case (Cons l ls)
  obtain c where c: "computeLoanMetrics (Some l) = Inr c"
    using computeLoanMetrics_returns by blast
  from Cons obtain ms where "map_raising (\<lambda>loan. computeLoanMetrics (Some loan)) ls = Inr ms"
    "\<forall>c\<in>set ms. \<exists>l\<in>set ls. computeLoanMetrics (Some l) = Inr c" by blast
  with c show ?case by auto
qed

text \<open>
  Claim C10, as amended. For every non-empty loan list the portfolio is computed, each
  loan's equity is its collateral minus its debt, and the three totals are the sums of the
  per-loan fields, added from the left starting at 0. For a single loan the total net
  worth is the total collateral minus the total debt. (For several loans each total is
  rounded at every addition, and the three rounded totals need not satisfy the identity.)
\<close>

theorem net_worth_rollup:
  assumes "loans result \<noteq> []"
  shows "\<exists>ms p. map_raising (\<lambda>loan. computeLoanMetrics (Some loan)) (loans result) = Inr ms
           \<and> portfolio (Some result) = Inr (Some p)
           \<and> (\<forall>c\<in>set ms. equity c = sub (collateralUSD c) (debt c))
           \<and> totalNetWorth p = reduce (\<lambda>sum item. add sum (equity item)) (Fin 0) ms
           \<and> totalCollateral p = reduce (\<lambda>sum item. add sum (collateralUSD item)) (Fin 0) ms
           \<and> totalDebt p = reduce (\<lambda>sum item. add sum (debt item)) (Fin 0) ms
           \<and> (length (loans result) = 1 \<longrightarrow>
                totalNetWorth p = sub (totalCollateral p) (totalDebt p))"
proof -
  from map_raising_computeLoanMetrics [of "loans result"]
  obtain ms where ms: "map_raising (\<lambda>loan. computeLoanMetrics (Some loan)) (loans result) = Inr ms"
    and src: "\<forall>c\<in>set ms. \<exists>l\<in>set (loans result). computeLoanMetrics (Some l) = Inr c"
    by blast
  have eq: "\<forall>c\<in>set ms. equity c = sub (collateralUSD c) (debt c)"
  proof
    fix c assume "c \<in> set ms"
    with src obtain l where l: "computeLoanMetrics (Some l) = Inr c" by blast
    obtain p where p: "primaryCollateral l = Inr p" by (simp add: primaryCollateral_Inr)
    from computeLoanMetrics_fields(3) [OF l p] show "equity c = sub (collateralUSD c) (debt c)" .
  qed
  have p: "portfolio (Some result) = Inr (Some (portfolioOfMetrics ms))"
    using assms ms by simp
  have t: "totalNetWorth (portfolioOfMetrics ms)
             = reduce (\<lambda>sum item. add sum (equity item)) (Fin 0) ms"
    "totalCollateral (portfolioOfMetrics ms)
             = reduce (\<lambda>sum item. add sum (collateralUSD item)) (Fin 0) ms"
    "totalDebt (portfolioOfMetrics ms) = reduce (\<lambda>sum item. add sum (debt item)) (Fin 0) ms"
    by (simp_all add: portfolioOfMetrics_def Let_def)
  have one: "totalNetWorth (portfolioOfMetrics ms)
        = sub (totalCollateral (portfolioOfMetrics ms)) (totalDebt (portfolioOfMetrics ms))"
    if len: "length (loans result) = 1"
  proof -
    from len obtain l where l: "loans result = [l]"
      by (cases "loans result") simp_all
    obtain c where c: "computeLoanMetrics (Some l) = Inr c"
      using computeLoanMetrics_returns by blast
    have m: "ms = [c]" using ms l c by simp
    have e: "equity c = sub (collateralUSD c) (debt c)" using eq m by simp
    have z: "add (Fin 0) x = x" for x by (cases x) simp_all
    from t show ?thesis
      unfolding m by (simp add: reduce_def z e)
  qed
  from ms p eq t one show ?thesis by blast
qed

text \<open>The snapshot with scenario A alone: collateral 30000, debt 15000, net worth 15000.\<close>

theorem net_worth_rollup_witness:
  "map_sum id (map_option totalCollateral) (portfolio (Some state_one_loan)) = Inr (Some (Fin 30000))
   \<and> map_sum id (map_option totalDebt) (portfolio (Some state_one_loan)) = Inr (Some (Fin 15000))
   \<and> map_sum id (map_option totalNetWorth) (portfolio (Some state_one_loan)) = Inr (Some (Fin 15000))"
proof -
  have ne: "loans state_one_loan \<noteq> []" by (simp add: state_one_loan_def)
  have len: "length (loans state_one_loan) = 1" by (simp add: state_one_loan_def)
  from net_worth_rollup [OF ne] len obtain ms p
    where ms: "map_raising (\<lambda>loan. computeLoanMetrics (Some loan)) (loans state_one_loan) = Inr ms"
      and p: "portfolio (Some state_one_loan) = Inr (Some p)"
      and c: "totalCollateral p = reduce (\<lambda>sum item. add sum (collateralUSD item)) (Fin 0) ms"
      and d: "totalDebt p = reduce (\<lambda>sum item. add sum (debt item)) (Fin 0) ms"
      and n: "totalNetWorth p = sub (totalCollateral p) (totalDebt p)"
    by blast
  obtain c1 where c1: "computeLoanMetrics (Some loan_a) = Inr c1"
    using computeLoanMetrics_returns by blast
  obtain p1 where p1: "primaryCollateral loan_a = Inr p1"
    by (simp add: primaryCollateral_Inr)
  have v1: "collateralUSD c1 = Fin 30000" "debt c1 = Fin 15000"
    using computeLoanMetrics_fields(1,2) [OF c1 p1] by (simp_all add: loan_a_def)
  have m: "ms = [c1]"
    using ms c1 by (simp add: state_one_loan_def)
  have tc: "totalCollateral p = Fin 30000"
    unfolding c m by (simp add: reduce_def v1)
  have td: "totalDebt p = Fin 15000"
    unfolding d m by (simp add: reduce_def v1)
  have tn: "totalNetWorth p = Fin 15000"
    unfolding n tc td by (simp add: sub_def)
  from p tc td tn show ?thesis by simp
qed

text \<open>
  The claim as stated fails with the host's rounded additions. For the snapshot of a
  loan with collateral \<open>2^53\<close> and debt \<open>2^53 - 1\<close> and a loan with collateral 1 and debt 0,
  both equities are 1 and the total net worth is 2; the total debt is \<open>2^53 - 1\<close>; the total
  collateral \<open>2^53 + 1\<close> is rounded to \<open>2^53\<close>; and the total collateral minus the total debt
  is 1. (The debts, collaterals and equities of the two loans are numbers of the host, so
  no other rounding takes place.)
\<close>

theorem net_worth_rollup_counterexample:
  "map_sum id (map_option totalNetWorth) (portfolio64 (Some state_rounding)) = Inr (Some (Fin 2))
   \<and> map_sum id (map_option totalCollateral) (portfolio64 (Some state_rounding))
       = Inr (Some (Fin (2 ^ 53)))
   \<and> map_sum id (map_option totalDebt) (portfolio64 (Some state_rounding))
       = Inr (Some (Fin (2 ^ 53 - 1)))
   \<and> sub64 (Fin (2 ^ 53)) (Fin (2 ^ 53 - 1)) = Fin 1"
proof -
  obtain c1 where c1: "computeLoanMetrics (Some loan_large) = Inr c1"
    using computeLoanMetrics_returns by blast
  obtain c2 where c2: "computeLoanMetrics (Some loan_unit) = Inr c2"
    using computeLoanMetrics_returns by blast
  obtain p1 where p1: "primaryCollateral loan_large = Inr p1"
    by (simp add: primaryCollateral_Inr)
  obtain p2 where p2: "primaryCollateral loan_unit = Inr p2"
    by (simp add: primaryCollateral_Inr)
  have v1: "collateralUSD c1 = Fin (2 ^ 53)" "debt c1 = Fin (2 ^ 53 - 1)" "equity c1 = Fin 1"
    using computeLoanMetrics_fields(1,2,3) [OF c1 p1] by (simp_all add: loan_large_def sub_def)
  have v2: "collateralUSD c2 = Fin 1" "debt c2 = Fin 0" "equity c2 = Fin 1"
    using computeLoanMetrics_fields(1,2,3) [OF c2 p2] by (simp_all add: loan_unit_def sub_def)
  have p: "portfolio64 (Some state_rounding) = Inr (Some (portfolioOfMetrics64 [c1, c2]))"
    using c1 c2 by (simp add: state_rounding_def)
  have n: "totalNetWorth (portfolioOfMetrics64 [c1, c2]) = Fin 2"
    using round64_1 round64_2
    by (simp add: portfolioOfMetrics64_def Let_def reduce_def add64_def v1 v2)
  have k: "totalCollateral (portfolioOfMetrics64 [c1, c2]) = Fin (2 ^ 53)"
    using round64_2_53 round64_2_53_plus_1
    by (simp add: portfolioOfMetrics64_def Let_def reduce_def add64_def v1 v2)
  have d: "totalDebt (portfolioOfMetrics64 [c1, c2]) = Fin (2 ^ 53 - 1)"
    using round64_2_53_minus_1
    by (simp add: portfolioOfMetrics64_def Let_def reduce_def add64_def v1 v2)
  have s: "sub64 (Fin (2 ^ 53)) (Fin (2 ^ 53 - 1)) = Fin 1"
    using round64_1 by (simp add: sub64_def sub_def)
  from p n k d s show ?thesis by simp
qed

section \<open>The weighted average\<close>

text \<open>
  Claim C6, as amended. For every list of asset positions and every selector,
  \<open>weightedAverage\<close> returns 0 whenever the sum of \<open>usdValue\<close> is \<open>\<le> 0\<close> (the empty
  list included). Otherwise the sum is not 0 and the result is the host's quotient of the
  sum of \<open>selector * usdValue\<close> by the sum of \<open>usdValue\<close>, both added from the left starting
  at 0: no division by zero takes place. When every \<open>usdValue\<close> and every selector value
  is finite and not negative and the sum of \<open>usdValue\<close> is finite, the result is not NaN
  and not negative. (No bound by the least and the greatest selector value is stated: the
  quotient is a rounded value, and a negative \<open>usdValue\<close> takes it out of that range.)
\<close>

theorem weighted_average_rule:
  "(less_eq_num (reduce (\<lambda>sum item. add sum (usdValue item)) (Fin 0) items) (Fin 0) \<longrightarrow>
      weightedAverage items sel = Fin 0)
   \<and> (items = [] \<longrightarrow> weightedAverage items sel = Fin 0)
   \<and> (\<not> less_eq_num (reduce (\<lambda>sum item. add sum (usdValue item)) (Fin 0) items) (Fin 0) \<longrightarrow>
        reduce (\<lambda>sum item. add sum (usdValue item)) (Fin 0) items \<noteq> Fin 0
        \<and> weightedAverage items sel =
            divide_num (reduce (\<lambda>sum item. add sum (mul (sel item) (usdValue item))) (Fin 0) items)
              (reduce (\<lambda>sum item. add sum (usdValue item)) (Fin 0) items))
   \<and> ((\<forall>a\<in>set items. nonneg (usdValue a) \<and> nonneg (sel a))
        \<and> isFinite (reduce (\<lambda>sum item. add sum (usdValue item)) (Fin 0) items) \<longrightarrow>
        weightedAverage items sel \<noteq> NaN \<and> less_eq_num (Fin 0) (weightedAverage items sel))"
proof -
  let ?T = "reduce (\<lambda>sum item. add sum (usdValue item)) (Fin 0) items"
  have a: "weightedAverage items sel = Fin 0" if "less_eq_num ?T (Fin 0)"
    using that by (simp add: weightedAverage_def)
  have b: "weightedAverage items sel = Fin 0" if "items = []"
    using that by (simp add: weightedAverage_def reduce_def less_eq_num_def)
  have c: "?T \<noteq> Fin 0
        \<and> weightedAverage items sel =
            divide_num (reduce (\<lambda>sum item. add sum (mul (sel item) (usdValue item))) (Fin 0) items) ?T"
    if h: "\<not> less_eq_num ?T (Fin 0)"
  proof -
    have "?T \<noteq> Fin 0"
    proof
      assume "?T = Fin 0"
      then have "less_eq_num ?T (Fin 0)" by (simp add: less_eq_num_def)
      with h show False by simp
    qed
    moreover have "weightedAverage items sel =
            divide_num (reduce (\<lambda>sum item. add sum (mul (sel item) (usdValue item))) (Fin 0) items) ?T"
      using h by (simp add: weightedAverage_def Let_def)
    ultimately show ?thesis by simp
  qed
  have d: "weightedAverage items sel \<noteq> NaN \<and> less_eq_num (Fin 0) (weightedAverage items sel)"
    if h: "\<forall>a\<in>set items. nonneg (usdValue a) \<and> nonneg (sel a)"
  proof -
    from weightedAverage_nonneg [OF h]
    obtain r where "weightedAverage items sel = Fin r" "0 \<le> r" by (auto simp: nonneg_iff)
    then show ?thesis by (auto simp: less_eq_num_def)
  qed
  from a b c d show ?thesis by blast
qed

text \<open>Two collateral assets of equal value with thresholds 0.825 and 0.78 average to
  0.8025, and the empty list to 0.\<close>

theorem weighted_average_rule_witness:
  "weightedAverage (supplied loan_tie) liqThreshold = Fin 0.8025
   \<and> weightedAverage [] liqThreshold = Fin 0"
proof -
  let ?items = "supplied loan_tie"
  have t: "reduce (\<lambda>sum item. add sum (usdValue item)) (Fin 0) ?items = Fin 60000"
    by (simp add: example_defs reduce_def)
  have w: "reduce (\<lambda>sum item. add sum (mul (liqThreshold item) (usdValue item))) (Fin 0) ?items
           = Fin 48150"
    by (simp add: example_defs reduce_def)
  have g: "\<not> less_eq_num (reduce (\<lambda>sum item. add sum (usdValue item)) (Fin 0) ?items) (Fin 0)"
    unfolding t by (simp add: less_eq_num_def)
  have h: "\<forall>a\<in>set ?items. nonneg (usdValue a) \<and> nonneg (liqThreshold a)"
    by (simp add: example_defs)
  have f: "isFinite (reduce (\<lambda>sum item. add sum (usdValue item)) (Fin 0) ?items)"
    unfolding t by simp
  note r = weighted_average_rule [of ?items liqThreshold]
  from r g have "weightedAverage ?items liqThreshold =
            divide_num (reduce (\<lambda>sum item. add sum (mul (liqThreshold item) (usdValue item))) (Fin 0) ?items)
              (reduce (\<lambda>sum item. add sum (usdValue item)) (Fin 0) ?items)"
    by blast
  then have 1: "weightedAverage ?items liqThreshold = Fin 0.8025"
    unfolding t w by simp
  from r h f have "weightedAverage ?items liqThreshold \<noteq> NaN" by blast
  from weighted_average_rule [of "[]" liqThreshold]
  have 2: "weightedAverage [] liqThreshold = Fin 0" by blast
  from 1 2 show ?thesis by simp
qed

text \<open>
  The claim as stated fails where a value is negative: the values 30000 and \<open>-15000\<close>
  sum to 15000, which is positive, and the average 0.87 of the thresholds 0.825 and 0.78
  lies above both.
\<close>

theorem weighted_average_rule_counterexample:
  "map usdValue assets_negative_price = [Fin 30000, Fin (- 15000)]
   \<and> map liqThreshold assets_negative_price = [Fin 0.825, Fin 0.78]
   \<and> weightedAverage assets_negative_price liqThreshold = Fin 0.87"
  by (simp add: assets_negative_price_def example_defs eval_simps)


section \<open>Position builder\<close>















end
